theory Spec2Isabelle
  imports Main
begin

section \<open>Audio stream controller (audio/controller.go)\<close>

text \<open>
  The Go struct \<^verbatim>\<open>controller\<close> holds a mutex and two booleans. Every method takes
  the mutex on entry and releases it on return, so each call is atomic and an
  interleaving of concurrent calls is the sequence of calls in the order in which they
  obtained the lock. The model is the pair of flags; a method maps the flags before the
  call to its return value and the flags after it.
\<close>

record controller =
  isSending :: bool
  isReceiving :: bool

definition NewController :: controller where
  "NewController = \<lparr>isSending = False, isReceiving = False\<rparr>"

definition StartSending :: "controller \<Rightarrow> bool \<times> controller" where
  "StartSending c =
     (if isReceiving c then (False, c)
      else (True, c\<lparr>isSending := True\<rparr>))"

definition StopSending :: "controller \<Rightarrow> controller" where
  "StopSending c = c\<lparr>isSending := False\<rparr>"

definition StartReceiving :: "controller \<Rightarrow> bool \<times> controller" where
  "StartReceiving c =
     (if isSending c then (False, c)
      else (True, c\<lparr>isReceiving := True\<rparr>))"

definition StopReceiving :: "controller \<Rightarrow> controller" where
  "StopReceiving c = c\<lparr>isReceiving := False\<rparr>"

definition IsSending :: "controller \<Rightarrow> bool" where
  "IsSending c = isSending c"

definition IsReceiving :: "controller \<Rightarrow> bool" where
  "IsReceiving c = isReceiving c"

text \<open>
  A call on the controller, and the flags it leaves. The two reads leave the flags as
  they are. \<open>observed\<close> lists the flags at every instant between calls: before the
  first call and after each one.
\<close>

datatype controller_call =
  CallStartSending | CallStopSending | CallStartReceiving | CallStopReceiving
  | CallIsSending | CallIsReceiving

fun after_call :: "controller_call \<Rightarrow> controller \<Rightarrow> controller" where
  "after_call CallStartSending c = snd (StartSending c)"
| "after_call CallStopSending c = StopSending c"
| "after_call CallStartReceiving c = snd (StartReceiving c)"
| "after_call CallStopReceiving c = StopReceiving c"
| "after_call CallIsSending c = c"
| "after_call CallIsReceiving c = c"

fun observed :: "controller \<Rightarrow> controller_call list \<Rightarrow> controller list" where
  "observed c [] = [c]"
| "observed c (k # ks) = c # observed (after_call k c) ks"

definition half_duplex :: "controller \<Rightarrow> bool" where
  "half_duplex c = (\<not> (isSending c \<and> isReceiving c))"


section \<open>Reconnection policy (utils/reconnect.go)\<close>

text \<open>
  \<^verbatim>\<open>time.Duration\<close> is a signed 64-bit count of nanoseconds. Durations are integers
  here and the one arithmetic operation of the policy, the doubling, wraps around as
  Go's \<^verbatim>\<open>int64\<close> multiplication does.
\<close>

type_synonym Duration = int

definition wrap64 :: "int \<Rightarrow> int" where
  "wrap64 x = (x + 2 ^ 63) mod 2 ^ 64 - 2 ^ 63"

definition Second :: Duration where
  "Second = 1000000000"

record ExponentialBackoff =
  currentDelay :: Duration
  maxDelay :: Duration

definition NewExponentialBackoff :: ExponentialBackoff where
  "NewExponentialBackoff = \<lparr>currentDelay = 1 * Second, maxDelay = 30 * Second\<rparr>"

definition NextDelay :: "ExponentialBackoff \<Rightarrow> Duration \<times> ExponentialBackoff" where
  "NextDelay e =
     (let delay = currentDelay e;
          e1 = e\<lparr>currentDelay := wrap64 (currentDelay e * 2)\<rparr>;
          e2 = (if currentDelay e1 > maxDelay e1
                then e1\<lparr>currentDelay := maxDelay e1\<rparr> else e1)
      in (delay, e2))"

text \<open>The values returned by \<open>n\<close> successive calls of \<open>NextDelay\<close>, in order.\<close>

fun delays :: "nat \<Rightarrow> ExponentialBackoff \<Rightarrow> Duration list" where
  "delays 0 e = []"
| "delays (Suc n) e = fst (NextDelay e) # delays n (snd (NextDelay e))"


definition backoff_inv :: "ExponentialBackoff \<Rightarrow> bool" where
  "backoff_inv e =
     (maxDelay e = 30 * Second \<and> 1 * Second \<le> currentDelay e
        \<and> currentDelay e \<le> 30 * Second)"


section \<open>Transport capability and JSON values\<close>

text \<open>
  \<^verbatim>\<open>interfaces.TransportProtocol\<close> is an interface implemented outside the client.
  It is a record of operations over a transport state \<open>'t\<close> of which nothing is
  assumed: \<open>Send\<close> and \<open>Close\<close> return Go's \<^verbatim>\<open>error\<close> (\<open>None\<close> is
  \<^verbatim>\<open>nil\<close>, \<open>Some e\<close> an error with text \<open>e\<close>) and the transport state
  after the call.

  A decoded JSON value is what \<^verbatim>\<open>encoding/json\<close> stores in an
  \<^verbatim>\<open>interface{}\<close>: nil, a bool, a number, a string, a slice or a map. The client
  never looks inside a number, so numbers carry an integer. An inbound message is a
  \<^verbatim>\<open>map[string]interface{}\<close>: a partial map from keys to values. An outbound
  message is the list of the key and value pairs of the map literal in the source.
\<close>

datatype MessageType = MsgText | MsgBinary | MsgControl

datatype json =
  JNull | JBool bool | JNumber int | JString string
  | JArray "json list" | JObject "(string \<times> json) list"

type_synonym message = "string \<rightharpoonup> json"

type_synonym outbound = "(string \<times> json) list"

record 't TransportProtocol =
  transport_Send :: "'t \<Rightarrow> outbound \<Rightarrow> MessageType \<Rightarrow> string option \<times> 't"
  transport_Close :: "'t \<Rightarrow> string option \<times> 't"

text \<open>
  The type assertion \<^verbatim>\<open>v, ok := m[key].(string)\<close>: \<open>Some s\<close> when the key is
  present with a string value, \<open>None\<close> (\<^verbatim>\<open>ok == false\<close>) when the key is missing
  or holds anything else. The one-result form \<^verbatim>\<open>m[key].(string)\<close> panics where
  this gives \<open>None\<close>.
\<close>

definition asString :: "json option \<Rightarrow> string option" where
  "asString v = (case v of Some (JString s) \<Rightarrow> Some s | _ \<Rightarrow> None)"


section \<open>Client (core: the session orchestrator)\<close>

text \<open>
  \<^verbatim>\<open>DeviceState\<close> and \<^verbatim>\<open>ListenMode\<close> are Go string types with named
  constants.
\<close>

type_synonym DeviceState = string

abbreviation DeviceStateUnknown :: DeviceState where
  "DeviceStateUnknown \<equiv> ''unknown''"
abbreviation DeviceStateConnecting :: DeviceState where
  "DeviceStateConnecting \<equiv> ''connecting''"
abbreviation DeviceStateIdle :: DeviceState where
  "DeviceStateIdle \<equiv> ''idle''"
abbreviation DeviceStateListening :: DeviceState where
  "DeviceStateListening \<equiv> ''listening''"
abbreviation DeviceStateSpeaking :: DeviceState where
  "DeviceStateSpeaking \<equiv> ''speaking''"
abbreviation DeviceStateDisconnected :: DeviceState where
  "DeviceStateDisconnected \<equiv> ''disconnected''"

type_synonym ListenMode = string

abbreviation ListenModeAuto :: ListenMode where
  "ListenModeAuto \<equiv> ''auto''"
abbreviation ListenModeManual :: ListenMode where
  "ListenModeManual \<equiv> ''manual''"
abbreviation ListenModeRealtime :: ListenMode where
  "ListenModeRealtime \<equiv> ''realtime''"

text \<open>
  Go's \<^verbatim>\<open>error\<close> is a \<open>string option\<close>: \<open>None\<close> is \<^verbatim>\<open>nil\<close> and
  \<open>Some e\<close> an error with text \<open>e\<close>. A method of the client that can panic ends
  with an \<open>outcome\<close>: it returns an error value (\<open>Ok\<close> when that is
  \<^verbatim>\<open>nil\<close>, \<open>Err e\<close> otherwise) or it panics.
\<close>

datatype outcome = Return "string option" | Panic string

abbreviation Ok :: outcome where
  "Ok \<equiv> Return None"

abbreviation Err :: "string \<Rightarrow> outcome" where
  "Err e \<equiv> Return (Some e)"

text \<open>
  The client's effects other than on its own fields are recorded, in program order, in
  \<open>trace\<close>: each call of the logger (level and message; the attributes are left
  out), each call the client makes on its audio controller, each assignment to the
  \<^verbatim>\<open>state\<close> field (old and new value) and each goroutine it starts.
\<close>

datatype level = LevelDebug | LevelInfo | LevelWarn | LevelError

datatype event =
  Log level string
  | EvStartSending | EvStopSending | EvStartReceiving | EvStopReceiving
  | EvState DeviceState DeviceState
  | EvGo string

text \<open>
  The fields of the Go struct \<^verbatim>\<open>Client\<close> that the modelled methods read or
  write. \<open>transport\<close> is \<open>None\<close> for the nil interface. \<open>closeChanClosed\<close> says
  whether \<^verbatim>\<open>closeChan\<close> has been closed. The logger is the \<open>Log\<close> events of
  \<open>trace\<close>.
\<close>

record 't Client =
  transport :: "'t option"
  state :: DeviceState
  sessionID :: string
  closeChanClosed :: bool
  audioCtrl :: controller
  trace :: "event list"

text \<open>
  \<^verbatim>\<open>NewClient\<close>, when it returns a client: the fields the struct literal sets,
  and Go's zero values (nil transport, empty session id) for the others.
\<close>

definition NewClient :: "'t Client" where
  "NewClient =
     \<lparr>transport = None, state = DeviceStateUnknown, sessionID = [],
      closeChanClosed = False, audioCtrl = NewController, trace = []\<rparr>"

definition emit :: "event \<Rightarrow> 't Client \<Rightarrow> 't Client" where
  "emit ev c = c\<lparr>trace := trace c @ [ev]\<rparr>"

definition logger :: "level \<Rightarrow> string \<Rightarrow> 't Client \<Rightarrow> 't Client" where
  "logger l s c = emit (Log l s) c"

text \<open>The four calls the client makes on \<^verbatim>\<open>c.audioCtrl\<close>.\<close>

definition audioCtrl_StartSending :: "'t Client \<Rightarrow> bool \<times> 't Client" where
  "audioCtrl_StartSending c =
     (fst (StartSending (audioCtrl c)),
      emit EvStartSending (c\<lparr>audioCtrl := snd (StartSending (audioCtrl c))\<rparr>))"

definition audioCtrl_StopSending :: "'t Client \<Rightarrow> 't Client" where
  "audioCtrl_StopSending c =
     emit EvStopSending (c\<lparr>audioCtrl := StopSending (audioCtrl c)\<rparr>)"

definition audioCtrl_StartReceiving :: "'t Client \<Rightarrow> bool \<times> 't Client" where
  "audioCtrl_StartReceiving c =
     (fst (StartReceiving (audioCtrl c)),
      emit EvStartReceiving (c\<lparr>audioCtrl := snd (StartReceiving (audioCtrl c))\<rparr>))"

definition audioCtrl_StopReceiving :: "'t Client \<Rightarrow> 't Client" where
  "audioCtrl_StopReceiving c =
     emit EvStopReceiving (c\<lparr>audioCtrl := StopReceiving (audioCtrl c)\<rparr>)"

definition GetState :: "'t Client \<Rightarrow> DeviceState" where
  "GetState c = state c"

definition setState :: "DeviceState \<Rightarrow> 't Client \<Rightarrow> 't Client" where
  "setState newState c =
     (let oldState = state c in
      if oldState \<noteq> newState then
        (let c1 =
               (if newState = DeviceStateSpeaking then
                  logger LevelDebug ''Auto-stopped audio sending for speaking state''
                    (audioCtrl_StopSending c)
                else if newState = DeviceStateListening then
                  (if \<not> fst (audioCtrl_StartSending c) then
                     logger LevelWarn
                       ''Failed to start audio sending when entering listening state''
                       (snd (audioCtrl_StartSending c))
                   else snd (audioCtrl_StartSending c))
                else c);
             c2 = emit (EvState oldState newState) (c1\<lparr>state := newState\<rparr>)
         in logger LevelInfo ''State changed'' c2)
      else c)"

text \<open>
  \<^verbatim>\<open>sendJSON\<close>. \<^verbatim>\<open>json.Marshal\<close> cannot fail on the maps of strings the
  client sends, so its error branch is not modelled; the payload handed to the
  transport is the message itself.
\<close>

definition sendJSON ::
  "'t TransportProtocol \<Rightarrow> outbound \<Rightarrow> 't Client \<Rightarrow> string option \<times> 't Client" where
  "sendJSON tp data c =
     (case transport c of
        None \<Rightarrow>
          (Some ''not connected to server'',
           logger LevelError ''Cannot send message, not connected to server'' c)
      | Some t \<Rightarrow>
          (let c1 = logger LevelInfo ''Sending JSON message'' c;
               r = transport_Send tp t data MsgText
           in (fst r, c1\<lparr>transport := Some (snd r)\<rparr>)))"

definition SendStartListening ::
  "'t TransportProtocol \<Rightarrow> ListenMode \<Rightarrow> 't Client \<Rightarrow> string option \<times> 't Client" where
  "SendStartListening tp mode c =
     (if GetState c \<noteq> DeviceStateIdle \<and> GetState c \<noteq> DeviceStateConnecting then
        (Some (''cannot start listening from state: '' @ GetState c), c)
      else
        (let msg = [(''session_id'', JString (sessionID c)),
                    (''type'', JString ''listen''),
                    (''state'', JString ''start''),
                    (''mode'', JString mode)];
             r = sendJSON tp msg c
         in case fst r of
              Some e \<Rightarrow> (Some (''failed to send listen command: '' @ e), snd r)
            | None \<Rightarrow>
                (None, logger LevelInfo ''Listening started''
                         (setState DeviceStateListening (snd r)))))"

definition BeginAudioStream :: "'t Client \<Rightarrow> string option \<times> 't Client" where
  "BeginAudioStream c =
     (let r = audioCtrl_StartSending c in
      if \<not> fst r then (Some ''cannot begin stream: currently receiving'', snd r)
      else (None, snd r))"

definition EndAudioStream :: "'t Client \<Rightarrow> 't Client" where
  "EndAudioStream c = audioCtrl_StopSending c"

text \<open>
  \<^verbatim>\<open>handleHelloResponse\<close>. \<^verbatim>\<open>json.Marshal(msg)\<close> of a decoded message cannot
  fail, so the handler logs and goes on to
  \<^verbatim>\<open>c.sessionID = msg["session_id"].(string)\<close>, a one-result type assertion: it
  panics, before the assignment, unless the key holds a string (the text of the
  run-time error is shortened here). The last statement before the return starts the
  capture goroutine.
\<close>

definition handleHelloResponse ::
  "'t TransportProtocol \<Rightarrow> message \<Rightarrow> 't Client \<Rightarrow> outcome \<times> 't Client" where
  "handleHelloResponse tp msg c =
     (let c1 = logger LevelInfo ''Received hello response from server'' c in
      case asString (msg ''session_id'') of
        None \<Rightarrow> (Panic ''interface conversion: interface {} is not string'', c1)
      | Some s \<Rightarrow>
          (let c2 = c1\<lparr>sessionID := s\<rparr>;
               r = SendStartListening tp ListenModeAuto c2;
               c3 = (if fst r \<noteq> None then
                       logger LevelError ''Failed to start auto listening'' (snd r)
                     else snd r);
               b = BeginAudioStream c3
           in if fst b \<noteq> None then
                (Return (fst b), logger LevelError ''Failed to start audio stream'' (snd b))
              else (Ok, emit (EvGo ''startAudioCapture'') (snd b))))"

definition handleListenMessage :: "message \<Rightarrow> 't Client \<Rightarrow> outcome \<times> 't Client" where
  "handleListenMessage msg c =
     (case asString (msg ''state'') of
        None \<Rightarrow>
          (Err ''listen state is missing'',
           logger LevelError ''Listen message missing state field'' c)
      | Some st \<Rightarrow>
          (if st = ''detect'' then
             (case asString (msg ''text'') of
                Some text \<Rightarrow> (Ok, logger LevelInfo ''Wake word detected'' c)
              | None \<Rightarrow> (Ok, c))
           else (Ok, logger LevelDebug ''Received listen message'' c)))"

definition handleTTSMessage ::
  "'t TransportProtocol \<Rightarrow> message \<Rightarrow> 't Client \<Rightarrow> outcome \<times> 't Client" where
  "handleTTSMessage tp msg c =
     (case asString (msg ''state'') of
        None \<Rightarrow> (Err ''missing state field'', c)
      | Some st \<Rightarrow>
          (if st = ''start'' then
             (let c1 = EndAudioStream c;
                  c2 = (if GetState c1 = DeviceStateListening then
                          setState DeviceStateSpeaking
                            (logger LevelDebug ''Forcing stop listening due to TTS start'' c1)
                        else c1)
              in if \<not> fst (audioCtrl_StartReceiving c2) then
                   (Err ''cannot receive while sending'', snd (audioCtrl_StartReceiving c2))
                 else (Ok, setState DeviceStateSpeaking (snd (audioCtrl_StartReceiving c2))))
           else if st = ''stop'' then
             (let c1 = audioCtrl_StopReceiving c;
                  c2 = logger LevelInfo ''Stopped audio receiving'' c1;
                  c3 = setState DeviceStateIdle c2;
                  r = SendStartListening tp ListenModeAuto c3;
                  c4 = (if fst r \<noteq> None then
                          logger LevelError ''Failed to start auto listening'' (snd r)
                        else snd r);
                  b = BeginAudioStream c4
              in if fst b \<noteq> None then
                   (Return (fst b),
                    logger LevelError ''Failed to start audio stream'' (snd b))
                 else (Ok, snd b))
           else if st = ''sentence_start'' then
             (case asString (msg ''text'') of
                Some text \<Rightarrow> (Ok, logger LevelInfo ''TTS sentence started'' c)
              | None \<Rightarrow> (Ok, logger LevelWarn ''TTS sentence_start missing text'' c))
           else if st = ''sentence_end'' then
             (case asString (msg ''text'') of
                Some text \<Rightarrow> (Ok, logger LevelInfo ''TTS sentence ended'' c)
              | None \<Rightarrow> (Ok, logger LevelWarn ''TTS sentence_end missing text'' c))
           else (Ok, c)))"

definition handleSTTMessage :: "message \<Rightarrow> 't Client \<Rightarrow> outcome \<times> 't Client" where
  "handleSTTMessage msg c =
     (case asString (msg ''session_id'') of
        None \<Rightarrow> (Err ''STT message missing session_id'', c)
      | Some sid \<Rightarrow>
          (case asString (msg ''text'') of
             None \<Rightarrow> (Err ''STT message missing text'', c)
           | Some text \<Rightarrow> (Ok, logger LevelInfo ''STT result received'' c)))"

text \<open>
  The string the LLM handler compares the text with is the four UTF-8 bytes of
  U+1F60E.
\<close>

definition handleLLMMessage :: "message \<Rightarrow> 't Client \<Rightarrow> outcome \<times> 't Client" where
  "handleLLMMessage msg c =
     (case asString (msg ''session_id'') of
        None \<Rightarrow> (Err ''LLM message missing session_id'', c)
      | Some sid \<Rightarrow>
          (case asString (msg ''text'') of
             None \<Rightarrow> (Err ''LLM message missing text'', c)
           | Some text \<Rightarrow>
               (let c1 = logger LevelInfo ''LLM response received'' c
                in if text = [CHR 0xF0, CHR 0x9F, CHR 0x98, CHR 0x8E] then
                     (Ok, logger LevelDebug ''Received cool emoji response'' c1)
                   else (Ok, c1))))"

definition handleAbortMessage :: "message \<Rightarrow> 't Client \<Rightarrow> outcome \<times> 't Client" where
  "handleAbortMessage msg c =
     (Ok, setState DeviceStateIdle (logger LevelInfo ''Session aborted'' c))"

definition handleErrorMessage :: "message \<Rightarrow> 't Client \<Rightarrow> outcome \<times> 't Client" where
  "handleErrorMessage msg c =
     (case asString (msg ''message'') of
        None \<Rightarrow>
          (Err ''error message is missing 'message' field'',
           logger LevelError ''Received error message without 'message' field'' c)
      | Some errorMsg \<Rightarrow>
          (case asString (msg ''session_id'') of
             None \<Rightarrow>
               (Err ''error message is missing 'session_id' field'',
                logger LevelError ''Received error message without 'session_id' field'' c)
           | Some sid \<Rightarrow>
               (Err (''session '' @ sid @ '' error: '' @ errorMsg),
                logger LevelError ''Received error message'' c)))"

text \<open>
  \<^verbatim>\<open>handleMessage\<close>, the dispatcher. Its argument is what
  \<^verbatim>\<open>json.Unmarshal(msg, &message)\<close> gives for the payload: \<open>Inl e\<close> for an error
  with text \<open>e\<close>, \<open>Inr m\<close> for the decoded map. The payload \<^verbatim>\<open>{}\<close> decodes to
  the empty map.
\<close>

definition handleMessage ::
  "'t TransportProtocol \<Rightarrow> string + message \<Rightarrow> 't Client \<Rightarrow> outcome \<times> 't Client" where
  "handleMessage tp decoded c =
     (case decoded of
        Inl e \<Rightarrow>
          (Err (''failed to unmarshal message: '' @ e),
           logger LevelError ''Failed to unmarshal message'' c)
      | Inr message \<Rightarrow>
          (case asString (message ''type'') of
             None \<Rightarrow>
               (Err ''message type is missing'',
                logger LevelError ''Received message without type field'' c)
           | Some msgType \<Rightarrow>
               (let c1 = logger LevelInfo ''Handling message'' c in
                if msgType = ''hello'' then handleHelloResponse tp message c1
                else if msgType = ''listen'' then handleListenMessage message c1
                else if msgType = ''tts'' then handleTTSMessage tp message c1
                else if msgType = ''stt'' then handleSTTMessage message c1
                else if msgType = ''llm'' then handleLLMMessage message c1
                else if msgType = ''abort'' then handleAbortMessage message c1
                else if msgType = ''error'' then handleErrorMessage message c1
                else (Ok, logger LevelWarn ''Unknown message type received'' c1))))"

text \<open>
  \<^verbatim>\<open>StopAudioCapture\<close> offers a value on the unbuffered \<^verbatim>\<open>audioStopChan\<close>
  without blocking; \<open>ready\<close> says whether the capture goroutine is waiting to take it.
\<close>

definition StopAudioCapture :: "bool \<Rightarrow> 't Client \<Rightarrow> 't Client" where
  "StopAudioCapture ready c =
     (if ready then logger LevelInfo ''Sent stop signal to audio capture'' c
      else logger LevelWarn ''Audio stop channel is full'' c)"

text \<open>
  \<^verbatim>\<open>Close\<close>. Closing a channel that is already closed panics.
  \<^verbatim>\<open>c.wg.Wait()\<close> returns once the message and audio-sender goroutines have seen
  the closed channel; it changes no field. \<open>ready\<close> is passed on to
  \<^verbatim>\<open>StopAudioCapture\<close>. \<open>Close\<close> closes \<^verbatim>\<open>closeChan\<close> before that call,
  and the only receiver on \<^verbatim>\<open>audioStopChan\<close> also selects on
  \<^verbatim>\<open>closeChan\<close>, so in a run of the program the call made by \<open>Close\<close> finds no
  receiver waiting: \<open>ready\<close> is \<open>False\<close> there. The properties below hold for
  either value, and the concrete runs take \<open>False\<close>.
\<close>

definition Close ::
  "'t TransportProtocol \<Rightarrow> bool \<Rightarrow> 't Client \<Rightarrow> outcome \<times> 't Client" where
  "Close tp ready c =
     (let c1 = logger LevelInfo ''Closing client connection'' c in
      if closeChanClosed c1 then (Panic ''close of closed channel'', c1)
      else
        (let c2 = StopAudioCapture ready (c1\<lparr>closeChanClosed := True\<rparr>);
             r = (case transport c2 of
                    None \<Rightarrow> (None, c2)
                  | Some t \<Rightarrow>
                      (fst (transport_Close tp t),
                       c2\<lparr>transport := Some (snd (transport_Close tp t))\<rparr>))
         in case fst r of
              Some e \<Rightarrow>
                (Err e, logger LevelError ''Failed to close WebSocket connection'' (snd r))
            | None \<Rightarrow>
                (Ok, logger LevelInfo ''Client closed successfully''
                        (setState DeviceStateDisconnected (snd r)))))"

text \<open>
  A transport for the concrete runs below: its state is the list of the messages sent
  so far, and every \<open>Send\<close> and \<open>Close\<close> succeeds.
\<close>

definition recordingTransport :: "outbound list TransportProtocol" where
  "recordingTransport =
     \<lparr>transport_Send = (\<lambda>t data k. (None, t @ [data])),
      transport_Close = (\<lambda>t. (None, t))\<rparr>"

text \<open>The client as a successful \<^verbatim>\<open>Connect\<close> leaves it: a transport, state idle.\<close>

definition connectedClient :: "outbound list Client" where
  "connectedClient = NewClient\<lparr>transport := Some [], state := DeviceStateIdle\<rparr>"

text \<open>
  The connected client after the server's hello response with session id \<open>abc\<close>
  has been handled: the session id is recorded and the device is listening.
\<close>

definition helloAbc :: message where
  "helloAbc = [''type'' \<mapsto> JString ''hello'', ''session_id'' \<mapsto> JString ''abc'']"

definition listeningClient :: "outbound list Client" where
  "listeningClient = snd (handleMessage recordingTransport (Inr helloAbc) connectedClient)"


section \<open>Properties of the audio stream controller\<close>

lemma half_duplex_after_call:
  "half_duplex c \<Longrightarrow> half_duplex (after_call k c)"
  by (cases k)
     (auto simp add: half_duplex_def StartSending_def StopSending_def
                     StartReceiving_def StopReceiving_def)

lemma half_duplex_observed:
  "half_duplex c \<Longrightarrow> \<forall>s \<in> set (observed c ks). half_duplex s"
proof (induction ks arbitrary: c)
  case Nil
  then show ?case by simp
next
  case (Cons k ks)
  from Cons.prems have "half_duplex (after_call k c)"
    by (rule half_duplex_after_call)
  then have "\<forall>s \<in> set (observed (after_call k c) ks). half_duplex s"
    by (rule Cons.IH)
  with Cons.prems show ?case by simp
qed

text \<open>
  Claim C1. Starting from a new controller (both flags false), after any sequence of
  calls of the controller's methods the flags are never both true, at the start and
  after every call; and each of the six methods, called with flags that are not both
  true, leaves flags that are not both true.
\<close>

theorem C1_half_duplex_invariant:
  "(\<forall>s \<in> set (observed NewController ks). \<not> (IsSending s \<and> IsReceiving s))
   \<and> (\<forall>k c. half_duplex c \<longrightarrow> half_duplex (after_call k c))"
proof -
  have "half_duplex NewController"
    by (simp add: half_duplex_def NewController_def)
  then have "\<forall>s \<in> set (observed NewController ks). half_duplex s"
    by (rule half_duplex_observed)
  then have "\<forall>s \<in> set (observed NewController ks). \<not> (IsSending s \<and> IsReceiving s)"
    by (simp add: half_duplex_def IsSending_def IsReceiving_def)
  then show ?thesis
    using half_duplex_after_call by blast
qed

theorem C1_half_duplex_invariant_witness:
  "\<lparr>isSending = False, isReceiving = True\<rparr>
     \<in> set (observed NewController [CallStartSending, CallStartReceiving,
          CallStopSending, CallStartReceiving, CallStartSending])
   \<and> \<not> (IsSending \<lparr>isSending = False, isReceiving = True\<rparr>
          \<and> IsReceiving \<lparr>isSending = False, isReceiving = True\<rparr>)
   \<and> half_duplex \<lparr>isSending = True, isReceiving = False\<rparr>
   \<and> half_duplex (after_call CallStartReceiving \<lparr>isSending = True, isReceiving = False\<rparr>)"
  using C1_half_duplex_invariant [of "[CallStartSending, CallStartReceiving,
       CallStopSending, CallStartReceiving, CallStartSending]"]
  by (simp add: NewController_def StartSending_def StopSending_def StartReceiving_def
                half_duplex_def)

text \<open>
  Claim C2. \<open>StartSending\<close> returns true exactly when \<open>isReceiving\<close> is false; when it
  returns true it sets \<open>isSending\<close> and leaves \<open>isReceiving\<close> as it was, and when it
  returns false it leaves both flags unchanged. \<open>StartReceiving\<close> is the mirror image.
\<close>

theorem C2_start_contract:
  "(fst (StartSending c) \<longleftrightarrow> \<not> isReceiving c)
   \<and> (\<not> isReceiving c \<longrightarrow> snd (StartSending c) = c\<lparr>isSending := True\<rparr>)
   \<and> (isReceiving c \<longrightarrow> StartSending c = (False, c))
   \<and> (fst (StartReceiving c) \<longleftrightarrow> \<not> isSending c)
   \<and> (\<not> isSending c \<longrightarrow> snd (StartReceiving c) = c\<lparr>isReceiving := True\<rparr>)
   \<and> (isSending c \<longrightarrow> StartReceiving c = (False, c))"
  by (simp add: StartSending_def StartReceiving_def)

theorem C2_start_contract_witness:
  "StartSending \<lparr>isSending = False, isReceiving = False\<rparr>
     = (True, \<lparr>isSending = True, isReceiving = False\<rparr>)
   \<and> StartSending \<lparr>isSending = False, isReceiving = True\<rparr>
     = (False, \<lparr>isSending = False, isReceiving = True\<rparr>)
   \<and> StartReceiving \<lparr>isSending = False, isReceiving = False\<rparr>
     = (True, \<lparr>isSending = False, isReceiving = True\<rparr>)
   \<and> StartReceiving \<lparr>isSending = True, isReceiving = False\<rparr>
     = (False, \<lparr>isSending = True, isReceiving = False\<rparr>)"
  using C2_start_contract [of "\<lparr>isSending = False, isReceiving = False\<rparr>"]
        C2_start_contract [of "\<lparr>isSending = False, isReceiving = True\<rparr>"]
        C2_start_contract [of "\<lparr>isSending = True, isReceiving = False\<rparr>"]
  by (simp add: prod_eq_iff)

text \<open>
  Claim C9. \<open>StopSending\<close> called when \<open>isSending\<close> is already false, and
  \<open>StopReceiving\<close> called when \<open>isReceiving\<close> is already false, return the flags
  exactly as they were (the methods return no value, so there is no error to report);
  and calling either twice is the same as calling it once.
\<close>

theorem C9_idempotent_stop:
  "(\<not> isSending c \<longrightarrow> StopSending c = c)
   \<and> (\<not> isReceiving c \<longrightarrow> StopReceiving c = c)
   \<and> StopSending (StopSending c) = StopSending c
   \<and> StopReceiving (StopReceiving c) = StopReceiving c"
  by (simp add: StopSending_def StopReceiving_def)

theorem C9_idempotent_stop_witness:
  "\<not> isSending \<lparr>isSending = False, isReceiving = True\<rparr>
   \<and> StopSending \<lparr>isSending = False, isReceiving = True\<rparr>
       = \<lparr>isSending = False, isReceiving = True\<rparr>
   \<and> \<not> isReceiving \<lparr>isSending = True, isReceiving = False\<rparr>
   \<and> StopReceiving \<lparr>isSending = True, isReceiving = False\<rparr>
       = \<lparr>isSending = True, isReceiving = False\<rparr>"
  using C9_idempotent_stop [of "\<lparr>isSending = False, isReceiving = True\<rparr>"]
        C9_idempotent_stop [of "\<lparr>isSending = True, isReceiving = False\<rparr>"]
  by simp


section \<open>Properties of the reconnection policy\<close>

lemma wrap64_id: "- (2 ^ 63) \<le> x \<Longrightarrow> x < 2 ^ 63 \<Longrightarrow> wrap64 x = x"
  by (simp add: wrap64_def)

lemma NextDelay_backoff_inv:
  assumes "backoff_inv e"
  shows "fst (NextDelay e) = currentDelay e"
    and "backoff_inv (snd (NextDelay e))"
    and "currentDelay e \<le> currentDelay (snd (NextDelay e))"
proof -
  from assms have b: "1000000000 \<le> currentDelay e" "currentDelay e \<le> 30000000000"
    and m: "maxDelay e = 30000000000"
    by (simp_all add: backoff_inv_def Second_def)
  from b have w: "wrap64 (currentDelay e * 2) = currentDelay e * 2"
    by (intro wrap64_id) simp_all
  show "fst (NextDelay e) = currentDelay e"
    by (simp add: NextDelay_def Let_def)
  from b m w show "backoff_inv (snd (NextDelay e))"
    by (simp add: NextDelay_def Let_def backoff_inv_def Second_def)
  from b m w show "currentDelay e \<le> currentDelay (snd (NextDelay e))"
    by (simp add: NextDelay_def Let_def)
qed

lemma delays_bounds:
  "backoff_inv e \<Longrightarrow>
     sorted (delays n e)
     \<and> (\<forall>d \<in> set (delays n e). currentDelay e \<le> d \<and> d \<le> 30 * Second)"
proof (induction n arbitrary: e)
  case 0
  then show ?case by simp
next
  case (Suc n)
  note nd = NextDelay_backoff_inv [OF Suc.prems]
  from Suc.IH [OF nd(2)]
  have s: "sorted (delays n (snd (NextDelay e)))"
    and r: "\<forall>d \<in> set (delays n (snd (NextDelay e))).
              currentDelay (snd (NextDelay e)) \<le> d \<and> d \<le> 30 * Second"
    by simp_all
  from Suc.prems have "currentDelay e \<le> 30 * Second"
    by (simp add: backoff_inv_def)
  with s r nd(1) nd(3) show ?case
    by (auto simp add: order_trans)
qed

lemma NewExponentialBackoff_inv: "backoff_inv NewExponentialBackoff"
  by (simp add: backoff_inv_def NewExponentialBackoff_def Second_def)

lemma delays_seven:
  "delays 7 NewExponentialBackoff
     = [1 * Second, 2 * Second, 4 * Second, 8 * Second, 16 * Second, 30 * Second, 30 * Second]"
  by (simp add: eval_nat_numeral NextDelay_def Let_def NewExponentialBackoff_def
        Second_def wrap64_def)

text \<open>
  Claim C6. For a new policy, the values returned by \<open>n\<close> successive calls of
  \<open>NextDelay\<close> are in non-decreasing order, the first of them (when there is one) is
  one second, and each is at most thirty seconds.
\<close>

theorem C6_backoff_monotone_capped:
  "sorted (delays n NewExponentialBackoff)
   \<and> (0 < n \<longrightarrow> hd (delays n NewExponentialBackoff) = 1 * Second)
   \<and> (\<forall>d \<in> set (delays n NewExponentialBackoff). d \<le> 30 * Second)"
proof -
  have "0 < n \<longrightarrow> hd (delays n NewExponentialBackoff) = 1 * Second"
    by (cases n) (simp_all add: NextDelay_def Let_def NewExponentialBackoff_def)
  with delays_bounds [OF NewExponentialBackoff_inv, of n] show ?thesis
    by simp
qed

theorem C6_backoff_monotone_capped_witness:
  "delays 7 NewExponentialBackoff
     = [1 * Second, 2 * Second, 4 * Second, 8 * Second, 16 * Second, 30 * Second, 30 * Second]
   \<and> sorted (delays 7 NewExponentialBackoff)
   \<and> (0::nat) < 7
   \<and> hd (delays 7 NewExponentialBackoff) = 1 * Second
   \<and> 30 * Second \<in> set (delays 7 NewExponentialBackoff)
   \<and> 30 * Second \<le> 30 * Second"
  using C6_backoff_monotone_capped [of 7] delays_seven
  by simp

text \<open>
  Once \<open>NextDelay\<close> has been called on a new policy, every later call returns at
  least two seconds: \<open>NextDelay\<close>, the only method \<^verbatim>\<open>ExponentialBackoff\<close> has,
  never brings the delay back to one second.
\<close>

lemma delays_after_first_call:
  "list_all (\<lambda>d. 2 * Second \<le> d) (delays n (snd (NextDelay NewExponentialBackoff)))"
proof -
  have c: "currentDelay (snd (NextDelay NewExponentialBackoff)) = 2 * Second"
    by (simp add: NextDelay_def Let_def NewExponentialBackoff_def Second_def wrap64_def)
  have "backoff_inv (snd (NextDelay NewExponentialBackoff))"
    by (rule NextDelay_backoff_inv(2) [OF NewExponentialBackoff_inv])
  from delays_bounds [OF this, of n] c show ?thesis
    by (simp add: list_all_iff)
qed

text \<open>
  Claim C7. The interface \<^verbatim>\<open>ReconnectStrategy\<close> declares \<^verbatim>\<open>Reset()\<close>, but
  \<^verbatim>\<open>ExponentialBackoff\<close> defines no such method, so nothing restores the one
  second delay: a new policy returns one second, then two, then four.
\<close>

theorem C7_no_reset_delays_keep_growing:
  "delays 3 NewExponentialBackoff = [1 * Second, 2 * Second, 4 * Second]"
  by (simp add: eval_nat_numeral NextDelay_def Let_def NewExponentialBackoff_def
        Second_def wrap64_def)


section \<open>Properties of the client\<close>

lemmas client_defs =
  emit_def logger_def audioCtrl_StartSending_def audioCtrl_StopSending_def
  audioCtrl_StartReceiving_def audioCtrl_StopReceiving_def GetState_def
  StartSending_def StopSending_def StartReceiving_def StopReceiving_def

lemmas run_defs =
  handleMessage_def handleHelloResponse_def handleTTSMessage_def
  SendStartListening_def sendJSON_def BeginAudioStream_def
  EndAudioStream_def setState_def Close_def StopAudioCapture_def asString_def
  recordingTransport_def connectedClient_def NewClient_def NewController_def Let_def

lemma listeningClient_eq:
  "listeningClient =
     \<lparr>transport = Some [[(''session_id'', JString ''abc''), (''type'', JString ''listen''),
                         (''state'', JString ''start''), (''mode'', JString ListenModeAuto)]],
      state = DeviceStateListening, sessionID = ''abc'', closeChanClosed = False,
      audioCtrl = \<lparr>isSending = True, isReceiving = False\<rparr>,
      trace = [Log LevelInfo ''Handling message'',
               Log LevelInfo ''Received hello response from server'',
               Log LevelInfo ''Sending JSON message'',
               EvStartSending,
               EvState DeviceStateIdle DeviceStateListening,
               Log LevelInfo ''State changed'',
               Log LevelInfo ''Listening started'',
               EvStartSending,
               EvGo ''startAudioCapture'']\<rparr>"
  by (simp add: listeningClient_def helloAbc_def run_defs client_defs)

text \<open>
  Claim C10. \<open>setState s\<close> called while the state is already \<open>s\<close> returns the client
  as it was: the state is still \<open>s\<close>, the controller's flags are unchanged, and the
  trace is unchanged, so no call was made on the controller and nothing was logged.
\<close>

theorem C10_setState_self_noop:
  "GetState c = s \<longrightarrow>
     setState s c = c
     \<and> GetState (setState s c) = s
     \<and> audioCtrl (setState s c) = audioCtrl c
     \<and> trace (setState s c) = trace c"
  by (simp add: setState_def GetState_def)

theorem C10_setState_self_noop_witness:
  "GetState listeningClient = DeviceStateListening
   \<and> setState DeviceStateListening listeningClient = listeningClient
   \<and> audioCtrl (setState DeviceStateListening listeningClient)
        = \<lparr>isSending = True, isReceiving = False\<rparr>
   \<and> trace (setState DeviceStateListening listeningClient) = trace listeningClient"
  using C10_setState_self_noop [of listeningClient DeviceStateListening]
  by (simp add: listeningClient_eq GetState_def)


subsection \<open>The TTS start message\<close>

text \<open>
  Claim C4. Handling an inbound message of type \<open>tts\<close> with state \<open>start\<close>, from
  any client state, returns without error and leaves the controller not sending, the
  device state speaking and the controller receiving. The first thing the handler does
  after the dispatcher's log line is to stop sending on the controller; every
  assignment to the device state comes after that, and sending is not started again.
\<close>

theorem C4_tts_start:
  assumes "asString (m ''type'') = Some ''tts''"
    and "asString (m ''state'') = Some ''start''"
  shows "fst (handleMessage tp (Inr m) c) = Ok
    \<and> \<not> IsSending (audioCtrl (snd (handleMessage tp (Inr m) c)))
    \<and> GetState (snd (handleMessage tp (Inr m) c)) = DeviceStateSpeaking
    \<and> IsReceiving (audioCtrl (snd (handleMessage tp (Inr m) c)))
    \<and> (\<exists>evs. trace (snd (handleMessage tp (Inr m) c))
                 = trace c @ Log LevelInfo ''Handling message'' # EvStopSending # evs
               \<and> EvStartSending \<notin> set evs)"
  using assms
  by (simp add: handleMessage_def handleTTSMessage_def EndAudioStream_def setState_def
        Let_def client_defs IsSending_def IsReceiving_def)

theorem C4_tts_start_witness:
  "asString ([''type'' \<mapsto> JString ''tts'', ''state'' \<mapsto> JString ''start''] ''type'')
     = Some ''tts''
   \<and> asString ([''type'' \<mapsto> JString ''tts'', ''state'' \<mapsto> JString ''start''] ''state'')
     = Some ''start''
   \<and> IsSending (audioCtrl listeningClient)
   \<and> GetState listeningClient = DeviceStateListening
   \<and> fst (handleMessage recordingTransport
        (Inr [''type'' \<mapsto> JString ''tts'', ''state'' \<mapsto> JString ''start''])
        listeningClient) = Ok
   \<and> \<not> IsSending (audioCtrl (snd (handleMessage recordingTransport
        (Inr [''type'' \<mapsto> JString ''tts'', ''state'' \<mapsto> JString ''start''])
        listeningClient)))
   \<and> GetState (snd (handleMessage recordingTransport
        (Inr [''type'' \<mapsto> JString ''tts'', ''state'' \<mapsto> JString ''start''])
        listeningClient)) = DeviceStateSpeaking
   \<and> IsReceiving (audioCtrl (snd (handleMessage recordingTransport
        (Inr [''type'' \<mapsto> JString ''tts'', ''state'' \<mapsto> JString ''start''])
        listeningClient)))"
  using C4_tts_start [of "[''type'' \<mapsto> JString ''tts'', ''state'' \<mapsto> JString ''start'']"
          recordingTransport listeningClient]
  by (simp add: asString_def listeningClient_eq IsSending_def GetState_def)


subsection \<open>Messages without a type or without a required field\<close>

text \<open>
  Claim C8, as the code has it. For the inbound message \<^verbatim>\<open>{}\<close> the dispatcher logs
  an error line and returns the error "message type is missing"; the device state, the
  controller's flags and the session id are unchanged, and the log line is the only
  effect.
\<close>

theorem C8_empty_object:
  "handleMessage tp (Inr Map.empty) c
     = (Err ''message type is missing'',
        logger LevelError ''Received message without type field'' c)
   \<and> GetState (snd (handleMessage tp (Inr Map.empty) c)) = GetState c
   \<and> audioCtrl (snd (handleMessage tp (Inr Map.empty) c)) = audioCtrl c
   \<and> sessionID (snd (handleMessage tp (Inr Map.empty) c)) = sessionID c
   \<and> trace (snd (handleMessage tp (Inr Map.empty) c))
        = trace c @ [Log LevelError ''Received message without type field'']"
  by (simp add: handleMessage_def asString_def client_defs)

text \<open>
  The claim as the specification states it, that the dispatcher returns without
  error, fails: for \<^verbatim>\<open>{}\<close> it returns an error.
\<close>

theorem C8_empty_object_counterexample:
  "fst (handleMessage recordingTransport (Inr Map.empty) connectedClient)
     = Err ''message type is missing''
   \<and> fst (handleMessage recordingTransport (Inr Map.empty) connectedClient) \<noteq> Ok"
  by (simp add: handleMessage_def asString_def)

text \<open>
  Messages of a recognised type other than \<open>hello\<close> that lack a required field:
  the dispatcher returns an error, and a log line or two are the only effect.
\<close>

lemma missing_state_tts:
  "asString (m ''type'') = Some ''tts'' \<Longrightarrow> asString (m ''state'') = None \<Longrightarrow>
     handleMessage tp (Inr m) c
       = (Err ''missing state field'', logger LevelInfo ''Handling message'' c)"
  by (simp add: handleMessage_def handleTTSMessage_def Let_def)

lemma missing_state_listen:
  "asString (m ''type'') = Some ''listen'' \<Longrightarrow> asString (m ''state'') = None \<Longrightarrow>
     handleMessage tp (Inr m) c
       = (Err ''listen state is missing'',
          logger LevelError ''Listen message missing state field''
            (logger LevelInfo ''Handling message'' c))"
  by (simp add: handleMessage_def handleListenMessage_def Let_def)

lemma missing_text_stt:
  "asString (m ''type'') = Some ''stt'' \<Longrightarrow> asString (m ''text'') = None \<Longrightarrow>
     handleMessage tp (Inr m) c
       = (Err (if asString (m ''session_id'') = None then ''STT message missing session_id''
               else ''STT message missing text''),
          logger LevelInfo ''Handling message'' c)"
  by (cases "asString (m ''session_id'')")
     (simp_all add: handleMessage_def handleSTTMessage_def Let_def)

lemma missing_text_llm:
  "asString (m ''type'') = Some ''llm'' \<Longrightarrow> asString (m ''text'') = None \<Longrightarrow>
     handleMessage tp (Inr m) c
       = (Err (if asString (m ''session_id'') = None then ''LLM message missing session_id''
               else ''LLM message missing text''),
          logger LevelInfo ''Handling message'' c)"
  by (cases "asString (m ''session_id'')")
     (simp_all add: handleMessage_def handleLLMMessage_def Let_def)

lemma missing_message_error:
  "asString (m ''type'') = Some ''error'' \<Longrightarrow> asString (m ''message'') = None \<Longrightarrow>
     handleMessage tp (Inr m) c
       = (Err ''error message is missing 'message' field'',
          logger LevelError ''Received error message without 'message' field''
            (logger LevelInfo ''Handling message'' c))"
  by (simp add: handleMessage_def handleErrorMessage_def Let_def)

text \<open>
  Claim C3. A \<open>hello\<close> message without \<open>session_id\<close> does not produce an error
  value: the handler's one-result type assertion panics.
\<close>

theorem C3_hello_without_session_id_panics:
  "handleMessage recordingTransport (Inr [''type'' \<mapsto> JString ''hello'']) connectedClient
     = (Panic ''interface conversion: interface {} is not string'',
        connectedClient\<lparr>trace := [Log LevelInfo ''Handling message'',
               Log LevelInfo ''Received hello response from server'']\<rparr>)"
  by (simp add: handleMessage_def handleHelloResponse_def asString_def Let_def
        emit_def logger_def connectedClient_def NewClient_def)


subsection \<open>The session id\<close>

lemma sessionID_basic [simp]:
  "sessionID (emit ev c) = sessionID c"
  "sessionID (logger l s c) = sessionID c"
  "sessionID (snd (audioCtrl_StartSending c)) = sessionID c"
  "sessionID (audioCtrl_StopSending c) = sessionID c"
  "sessionID (snd (audioCtrl_StartReceiving c)) = sessionID c"
  "sessionID (audioCtrl_StopReceiving c) = sessionID c"
  by (simp_all add: client_defs)

lemma sessionID_setState [simp]: "sessionID (setState s c) = sessionID c"
  by (simp add: setState_def Let_def)

lemma sessionID_sendJSON [simp]: "sessionID (snd (sendJSON tp d c)) = sessionID c"
  by (simp add: sendJSON_def Let_def split: option.splits)

lemma sessionID_SendStartListening [simp]:
  "sessionID (snd (SendStartListening tp mode c)) = sessionID c"
  by (simp add: SendStartListening_def Let_def split: option.splits)

lemma sessionID_BeginAudioStream [simp]:
  "sessionID (snd (BeginAudioStream c)) = sessionID c"
  by (simp add: BeginAudioStream_def Let_def)

lemma sessionID_handleHelloResponse:
  "sessionID (snd (handleHelloResponse tp m c))
     = (case asString (m ''session_id'') of None \<Rightarrow> sessionID c | Some s \<Rightarrow> s)"
  by (simp add: handleHelloResponse_def Let_def split: option.splits)

lemma sessionID_other_handlers [simp]:
  "sessionID (snd (handleListenMessage m c)) = sessionID c"
  "sessionID (snd (handleTTSMessage tp m c)) = sessionID c"
  "sessionID (snd (handleSTTMessage m c)) = sessionID c"
  "sessionID (snd (handleLLMMessage m c)) = sessionID c"
  "sessionID (snd (handleAbortMessage m c)) = sessionID c"
  "sessionID (snd (handleErrorMessage m c)) = sessionID c"
  by (simp_all add: handleListenMessage_def handleTTSMessage_def handleSTTMessage_def
        handleLLMMessage_def handleAbortMessage_def handleErrorMessage_def
        EndAudioStream_def Let_def split: option.splits)

text \<open>
  The dispatcher changes the session id in one case only: the message is of type
  \<open>hello\<close> and its \<open>session_id\<close> is a string, which becomes the session id.
\<close>

lemma sessionID_handleMessage:
  "sessionID (snd (handleMessage tp decoded c))
     = (case decoded of
          Inl e \<Rightarrow> sessionID c
        | Inr m \<Rightarrow>
            (if asString (m ''type'') = Some ''hello'' then
               (case asString (m ''session_id'') of None \<Rightarrow> sessionID c | Some s \<Rightarrow> s)
             else sessionID c))"
  by (simp add: handleMessage_def Let_def sessionID_handleHelloResponse
        split: sum.splits option.splits)

lemma sessionID_Close [simp]: "sessionID (snd (Close tp ready c)) = sessionID c"
  by (simp add: Close_def Let_def StopAudioCapture_def split: option.splits)

lemma state_Close:
  "fst (Close tp ready c) = Ok \<Longrightarrow> state (snd (Close tp ready c)) = DeviceStateDisconnected"
  by (simp add: Close_def Let_def StopAudioCapture_def setState_def client_defs
        split: option.splits if_splits)

text \<open>
  Claim C5, as the code has it. A new client has the empty session id. Handling an
  inbound message of type \<open>hello\<close> whose \<open>session_id\<close> is a string records that
  string as the session id; handling any other message leaves the session id as it
  was, so a changed session id is always the \<open>session_id\<close> of a \<open>hello\<close> just
  handled. \<open>setState\<close>, \<open>sendJSON\<close>, \<open>SendStartListening\<close>,
  \<open>BeginAudioStream\<close>, \<open>EndAudioStream\<close> and \<open>StopAudioCapture\<close> leave the
  session id as it was. \<open>Close\<close> leaves the session id as it was before the call
  however it ends, and when it completes the device state is disconnected: the session
  id is not reset.
\<close>

theorem C5_sessionID_kept_on_close:
  "sessionID (NewClient :: 't Client) = []
   \<and> (asString (m ''type'') = Some ''hello'' \<and> asString (m ''session_id'') = Some s \<longrightarrow>
        sessionID (snd (handleMessage tp (Inr m) c)) = s)
   \<and> sessionID (snd (handleMessage tp decoded c))
        = (case decoded of
             Inl e \<Rightarrow> sessionID c
           | Inr m' \<Rightarrow>
               (if asString (m' ''type'') = Some ''hello'' then
                  (case asString (m' ''session_id'') of
                     None \<Rightarrow> sessionID c
                   | Some s' \<Rightarrow> s')
                else sessionID c))
   \<and> (sessionID (snd (handleMessage tp decoded c)) \<noteq> sessionID c \<longrightarrow>
        (\<exists>m. decoded = Inr m \<and> asString (m ''type'') = Some ''hello''
              \<and> asString (m ''session_id'')
                    = Some (sessionID (snd (handleMessage tp decoded c)))))
   \<and> sessionID (setState st c) = sessionID c
   \<and> sessionID (snd (sendJSON tp data c)) = sessionID c
   \<and> sessionID (snd (SendStartListening tp mode c)) = sessionID c
   \<and> sessionID (snd (BeginAudioStream c)) = sessionID c
   \<and> sessionID (EndAudioStream c) = sessionID c
   \<and> sessionID (StopAudioCapture ready c) = sessionID c
   \<and> sessionID (snd (Close tp ready c')) = sessionID c'
   \<and> (fst (Close tp ready c') = Ok \<longrightarrow>
        GetState (snd (Close tp ready c')) = DeviceStateDisconnected
        \<and> sessionID (snd (Close tp ready c')) = sessionID c')"
proof -
  have 1: "sessionID (NewClient :: 't Client) = []"
    by (simp add: NewClient_def)
  have 2: "asString (m ''type'') = Some ''hello'' \<and> asString (m ''session_id'') = Some s \<longrightarrow>
        sessionID (snd (handleMessage tp (Inr m) c)) = s"
    by (simp add: sessionID_handleMessage)
  have 3: "sessionID (snd (handleMessage tp decoded c)) \<noteq> sessionID c \<longrightarrow>
        (\<exists>m. decoded = Inr m \<and> asString (m ''type'') = Some ''hello''
              \<and> asString (m ''session_id'')
                    = Some (sessionID (snd (handleMessage tp decoded c))))"
    unfolding sessionID_handleMessage
    by (cases decoded) (auto split: option.splits)
  have 4: "sessionID (EndAudioStream c) = sessionID c"
    "sessionID (StopAudioCapture ready c) = sessionID c"
    by (simp_all add: EndAudioStream_def StopAudioCapture_def)
  have 5: "fst (Close tp ready c') = Ok \<longrightarrow>
        GetState (snd (Close tp ready c')) = DeviceStateDisconnected
        \<and> sessionID (snd (Close tp ready c')) = sessionID c'"
    by (simp add: state_Close GetState_def)
  show ?thesis
    apply (intro conjI)
    apply (rule 1)
    apply (rule 2)
    apply (rule sessionID_handleMessage)
    apply (rule 3)
    apply (rule sessionID_setState)
    apply (rule sessionID_sendJSON)
    apply (rule sessionID_SendStartListening)
    apply (rule sessionID_BeginAudioStream)
    apply (rule 4(1))
    apply (rule 4(2))
    apply (rule sessionID_Close)
    apply (rule 5)
    done
qed

lemma Close_listeningClient:
  "fst (Close recordingTransport False listeningClient) = Ok
   \<and> state (snd (Close recordingTransport False listeningClient)) = DeviceStateDisconnected
   \<and> sessionID (snd (Close recordingTransport False listeningClient)) = ''abc''"
  by (simp add: listeningClient_eq Close_def StopAudioCapture_def setState_def
        recordingTransport_def Let_def client_defs)

theorem C5_sessionID_kept_on_close_witness:
  "asString (helloAbc ''type'') = Some ''hello''
   \<and> asString (helloAbc ''session_id'') = Some ''abc''
   \<and> sessionID connectedClient = []
   \<and> sessionID (snd (handleMessage recordingTransport (Inr helloAbc) connectedClient))
       = ''abc''
   \<and> sessionID (snd (handleMessage recordingTransport (Inr helloAbc) connectedClient))
       \<noteq> sessionID connectedClient
   \<and> fst (Close recordingTransport False listeningClient) = Ok
   \<and> GetState (snd (Close recordingTransport False listeningClient))
       = DeviceStateDisconnected
   \<and> sessionID (snd (Close recordingTransport False listeningClient))
       = sessionID listeningClient
   \<and> sessionID listeningClient = ''abc''"
proof -
  have b: "sessionID connectedClient = []"
    by (simp add: connectedClient_def NewClient_def)
  have c: "asString (helloAbc ''type'') = Some ''hello''"
    "asString (helloAbc ''session_id'') = Some ''abc''"
    by (simp_all add: helloAbc_def asString_def)
  have d: "sessionID listeningClient = ''abc''"
    by (simp add: listeningClient_eq)
  from C5_sessionID_kept_on_close [where tp = recordingTransport and m = helloAbc
          and s = "''abc''" and c = connectedClient] c
  have a: "sessionID (snd (handleMessage recordingTransport (Inr helloAbc) connectedClient))
             = ''abc''"
    by blast
  from C5_sessionID_kept_on_close [where tp = recordingTransport and ready = False
          and c' = listeningClient]
  have e: "sessionID (snd (Close recordingTransport False listeningClient))
             = sessionID listeningClient"
    by blast
  from a b c d e Close_listeningClient show ?thesis
    by (simp add: GetState_def)
qed

text \<open>
  The claim as the specification states it, that the session id is empty again after
  the client has disconnected, fails: after the hello response with session id
  \<open>abc\<close>, \<open>Close\<close> completes, the state is disconnected and the session id is still
  \<open>abc\<close>.
\<close>

theorem C5_sessionID_reset_counterexample:
  "fst (Close recordingTransport False
          (snd (handleMessage recordingTransport (Inr helloAbc) connectedClient))) = Ok
   \<and> GetState (snd (Close recordingTransport False
          (snd (handleMessage recordingTransport (Inr helloAbc) connectedClient))))
       = DeviceStateDisconnected
   \<and> sessionID (snd (Close recordingTransport False
          (snd (handleMessage recordingTransport (Inr helloAbc) connectedClient))))
       = ''abc''
   \<and> sessionID (snd (Close recordingTransport False
          (snd (handleMessage recordingTransport (Inr helloAbc) connectedClient))))
       \<noteq> []"
  using Close_listeningClient
  by (simp add: listeningClient_def [symmetric] GetState_def)

end
